theory Spec2Isabelle
  imports Main "HOL-Library.Word"
begin

section \<open>The contract envelope of \<^verbatim>\<open>src/gridcoin/contract/contract.cpp\<close>\<close>

text \<open>
  A shallow embedding of the contract envelope, the dispatcher with its two built-in
  handlers and the apply/revert/replay pipeline. Every function keeps the name it has in
  the C++ source. Collaborators that live in other translation units (hashing, ECDSA,
  the wallet, the base64/hex codecs, the external registries, the block store) are taken
  as parameters, bundled in the records \<open>crypto\<close>, \<open>codec\<close> and \<open>collab\<close>.
\<close>

subsection \<open>Data model\<close>

type_synonym byte = "8 word"
type_synonym bytes = "byte list"
type_synonym uint256 = "256 word"
type_synonym uint160 = "160 word"

text \<open>\<^verbatim>\<open>CPubKey\<close> is a byte vector; its validity test is a parameter (\<open>IsValid\<close>).\<close>

type_synonym CPubKey = bytes

text \<open>The enumerators named by the switches of \<^verbatim>\<open>ConvertFromLegacy\<close> and \<^verbatim>\<open>ResetType\<close>.\<close>

datatype ContractType =
  UNKNOWN | BEACON | CLAIM | MESSAGE | POLL | PROJECT | PROTOCOL | SCRAPER | VOTE
  | OUT_OF_BOUND

datatype ContractAction = UNKNOWN_ACTION | ADD | REMOVE

text \<open>
  The payload variants. \<^verbatim>\<open>EmptyPayload\<close> and \<^verbatim>\<open>LegacyPayload\<close> are the two classes of
  this file; \<open>TypedPayload\<close> stands for any payload class defined elsewhere (beacon,
  poll, project, vote, claim, message), known only through the virtual interface
  \<^verbatim>\<open>IContractPayload\<close>: its structural check and its legacy key and value strings.
\<close>

datatype ContractPayload =
  EmptyPayload
  | LegacyPayload string string
  | TypedPayload "ContractAction \<Rightarrow> bool" string string

record Body =
  m_payload :: ContractPayload

record Contract =
  m_version :: int
  m_type :: ContractType
  m_action :: ContractAction
  m_body :: Body
  m_signature :: bytes
  m_public_key :: CPubKey

text \<open>Run-time failures of the C++ code that the model keeps as values.\<close>

datatype error =
  InvalidPayloadCast    \<comment> \<open>\<^verbatim>\<open>static_cast<const LegacyPayload&>\<close> of another payload class\<close>
  | AssertionFailed     \<comment> \<open>\<^verbatim>\<open>assert(false)\<close>\<close>
  | IteratorOutOfRange  \<comment> \<open>\<^verbatim>\<open>std::next(vtx.begin(), 2)\<close> past the end\<close>
  | NullPointer         \<comment> \<open>dereferencing a null \<^verbatim>\<open>CBlockIndex*\<close>\<close>

text \<open>
  The collaborators of signing and verification: the wallet's master key, the two hash
  functions, \<^verbatim>\<open>CKey::SetPubKey\<close>, \<^verbatim>\<open>CKey::Verify\<close>, \<^verbatim>\<open>CPubKey::IsValid\<close> and the constant
  \<^verbatim>\<open>Contract::CURRENT_VERSION\<close> of the header.
\<close>

record crypto =
  CURRENT_VERSION :: int
  MasterPublicKey :: CPubKey
  Hash :: "string \<Rightarrow> string \<Rightarrow> string \<Rightarrow> uint256"
  SerializeHash :: "Contract \<Rightarrow> uint256"
  SetPubKey :: "CPubKey \<Rightarrow> bool"
  Verify :: "CPubKey \<Rightarrow> uint256 \<Rightarrow> bytes \<Rightarrow> bool"
  IsValid :: "CPubKey \<Rightarrow> bool"

text \<open>The string helpers: \<^verbatim>\<open>ExtractXML\<close>, \<^verbatim>\<open>DecodeBase64\<close> (bytes and the invalid flag),
  \<^verbatim>\<open>EncodeBase64\<close> and \<^verbatim>\<open>HexStr\<close>.\<close>

record codec =
  ExtractXML :: "string \<Rightarrow> string \<Rightarrow> string \<Rightarrow> string"
  DecodeBase64 :: "string \<Rightarrow> bytes \<times> bool"
  EncodeBase64 :: "bytes \<Rightarrow> string"
  HexStr :: "bytes \<Rightarrow> string"

subsection \<open>Payload classes\<close>

fun Payload_WellFormed :: "ContractPayload \<Rightarrow> ContractAction \<Rightarrow> bool" where
  "Payload_WellFormed EmptyPayload action = False"
| "Payload_WellFormed (LegacyPayload key val) action =
     (key \<noteq> [] \<and> (action = REMOVE \<or> val \<noteq> []))"
| "Payload_WellFormed (TypedPayload chk key val) action = chk action"

fun LegacyKeyString :: "ContractPayload \<Rightarrow> string" where
  "LegacyKeyString EmptyPayload = []"
| "LegacyKeyString (LegacyPayload key val) = key"
| "LegacyKeyString (TypedPayload chk key val) = key"

fun LegacyValueString :: "ContractPayload \<Rightarrow> string" where
  "LegacyValueString EmptyPayload = []"
| "LegacyValueString (LegacyPayload key val) = val"
| "LegacyValueString (TypedPayload chk key val) = val"

text \<open>
  \<^verbatim>\<open>static_cast<const LegacyPayload&>(*m_payload)\<close>: defined only when the payload
  object is a \<^verbatim>\<open>LegacyPayload\<close>.
\<close>

fun cast_LegacyPayload :: "ContractPayload \<Rightarrow> error + (string \<times> string)" where
  "cast_LegacyPayload (LegacyPayload key val) = Inr (key, val)"
| "cast_LegacyPayload EmptyPayload = Inl InvalidPayloadCast"
| "cast_LegacyPayload (TypedPayload chk key val) = Inl InvalidPayloadCast"

subsection \<open>Class \<^verbatim>\<open>Contract::Type\<close> and \<^verbatim>\<open>Contract::Action\<close>\<close>

definition Type_Parse :: "string \<Rightarrow> ContractType" where
  "Type_Parse input =
     (if input = ''beacon'' then BEACON
      else if input = ''vote'' then VOTE
      else if input = ''poll'' then POLL
      else if input = ''project'' then PROJECT
      else if input = ''scraper'' then SCRAPER
      else if input = ''protocol'' then PROTOCOL
      else UNKNOWN)"

fun Type_ToString :: "ContractType \<Rightarrow> string" where
  "Type_ToString BEACON = ''beacon''"
| "Type_ToString CLAIM = ''claim''"
| "Type_ToString MESSAGE = ''message''"
| "Type_ToString POLL = ''poll''"
| "Type_ToString PROJECT = ''project''"
| "Type_ToString PROTOCOL = ''protocol''"
| "Type_ToString SCRAPER = ''scraper''"
| "Type_ToString VOTE = ''vote''"
| "Type_ToString UNKNOWN = []"
| "Type_ToString OUT_OF_BOUND = []"

definition Action_Parse :: "string \<Rightarrow> ContractAction" where
  "Action_Parse input =
     (if input = ''A'' then ADD
      else if input = ''D'' then REMOVE
      else UNKNOWN_ACTION)"

fun Action_ToString :: "ContractAction \<Rightarrow> string" where
  "Action_ToString ADD = ''A''"
| "Action_ToString REMOVE = ''D''"
| "Action_ToString UNKNOWN_ACTION = []"

subsection \<open>Class \<^verbatim>\<open>Contract::Signature\<close> and \<^verbatim>\<open>Contract::PublicKey\<close>\<close>

definition Signature_Parse :: "codec \<Rightarrow> string \<Rightarrow> bytes" where
  "Signature_Parse cd input =
     (if input = [] then []
      else (case DecodeBase64 cd input of
              (decoded, invalid) \<Rightarrow> if invalid then [] else decoded))"

definition Signature_Viable :: "bytes \<Rightarrow> bool" where
  "Signature_Viable m_bytes = (64 \<le> length m_bytes \<and> length m_bytes \<le> 73)"

definition Signature_ToString :: "codec \<Rightarrow> bytes \<Rightarrow> string" where
  "Signature_ToString cd m_bytes = (if m_bytes = [] then [] else EncodeBase64 cd m_bytes)"

definition PublicKey_Viable :: "crypto \<Rightarrow> CPubKey \<Rightarrow> bool" where
  "PublicKey_Viable cr m_key = IsValid cr m_key"

definition PublicKey_ToString :: "codec \<Rightarrow> CPubKey \<Rightarrow> string" where
  "PublicKey_ToString cd m_key = HexStr cd m_key"

subsection \<open>Class \<^verbatim>\<open>Contract\<close>\<close>

definition MessagePublicKey :: CPubKey where
  "MessagePublicKey =
     [0x04, 0x4b, 0x29, 0x38, 0xfb, 0xc3, 0x80, 0x71, 0xf2, 0x4b, 0xed,
      0xe2, 0x1e, 0x83, 0x8a, 0x07, 0x58, 0xa5, 0x2a, 0x00, 0x85, 0xf2,
      0xe0, 0x34, 0xe7, 0xf9, 0x71, 0xdf, 0x44, 0x54, 0x36, 0xa2, 0x52,
      0x46, 0x7f, 0x69, 0x2e, 0xc9, 0xc5, 0xba, 0x7e, 0x5e, 0xaa, 0x89,
      0x8a, 0xb9, 0x9c, 0xbd, 0x99, 0x49, 0x49, 0x6f, 0x7e, 0x3c, 0xaf,
      0xbf, 0x56, 0x30, 0x4b, 0x1c, 0xc2, 0xe5, 0xbd, 0xf0, 0x6e]"

definition Contract_default :: "crypto \<Rightarrow> Contract" where
  "Contract_default cr =
     \<lparr>m_version = CURRENT_VERSION cr, m_type = UNKNOWN, m_action = UNKNOWN_ACTION,
      m_body = \<lparr>m_payload = EmptyPayload\<rparr>, m_signature = [], m_public_key = []\<rparr>"

definition Parse :: "crypto \<Rightarrow> codec \<Rightarrow> string \<Rightarrow> Contract" where
  "Parse cr cd message =
     (if message = [] then Contract_default cr
      else
        \<lparr>m_version = 1,
         m_type = Type_Parse (ExtractXML cd message ''<MT>'' ''</MT>''),
         m_action = Action_Parse (ExtractXML cd message ''<MA>'' ''</MA>''),
         m_body = \<lparr>m_payload = LegacyPayload
                     (ExtractXML cd message ''<MK>'' ''</MK>'')
                     (ExtractXML cd message ''<MV>'' ''</MV>'')\<rparr>,
         m_signature = Signature_Parse cd (ExtractXML cd message ''<MS>'' ''</MS>''),
         m_public_key = []\<rparr>)"

definition RequiresMasterKey :: "Contract \<Rightarrow> bool" where
  "RequiresMasterKey c =
     (case m_type c of
        BEACON \<Rightarrow> m_version c = 1 \<and> m_action c = REMOVE
      | POLL \<Rightarrow> m_action c = REMOVE
      | PROJECT \<Rightarrow> True
      | PROTOCOL \<Rightarrow> True
      | SCRAPER \<Rightarrow> True
      | VOTE \<Rightarrow> m_action c = REMOVE
      | _ \<Rightarrow> False)"

definition RequiresMessageKey :: "Contract \<Rightarrow> bool" where
  "RequiresMessageKey c =
     (case m_type c of
        BEACON \<Rightarrow> m_action c = ADD
      | POLL \<Rightarrow> m_action c = ADD
      | VOTE \<Rightarrow> m_action c = ADD
      | _ \<Rightarrow> False)"

definition RequiresSpecialKey :: "Contract \<Rightarrow> bool" where
  "RequiresSpecialKey c = (RequiresMessageKey c \<or> RequiresMasterKey c)"

definition ResolvePublicKey :: "crypto \<Rightarrow> Contract \<Rightarrow> CPubKey" where
  "ResolvePublicKey cr c =
     (if RequiresMessageKey c then MessagePublicKey
      else if RequiresMasterKey c then MasterPublicKey cr
      else m_public_key c)"

definition Body_WellFormed :: "Body \<Rightarrow> ContractAction \<Rightarrow> bool" where
  "Body_WellFormed b action = Payload_WellFormed (m_payload b) action"

definition WellFormed :: "crypto \<Rightarrow> Contract \<Rightarrow> bool" where
  "WellFormed cr c =
     (m_version c > 0 \<and> m_version c \<le> CURRENT_VERSION cr
      \<and> m_type c \<noteq> UNKNOWN
      \<and> m_action c \<noteq> UNKNOWN_ACTION
      \<and> Body_WellFormed (m_body c) (m_action c)
      \<and> (m_version c > 1 \<or> Signature_Viable (m_signature c))
      \<and> (m_version c > 1 \<or> (RequiresSpecialKey c \<or> PublicKey_Viable cr (m_public_key c))))"

definition GetHash :: "crypto \<Rightarrow> Contract \<Rightarrow> error + uint256" where
  "GetHash cr c =
     (if m_version c > 1 then Inr (SerializeHash cr c)
      else (case cast_LegacyPayload (m_payload (m_body c)) of
              Inl e \<Rightarrow> Inl e
            | Inr (key, val) \<Rightarrow> Inr (Hash cr (Type_ToString (m_type c)) key val)))"

definition ToString :: "codec \<Rightarrow> Contract \<Rightarrow> string" where
  "ToString cd c =
     (if m_type c = MESSAGE
      then ''<MESSAGE>'' @ LegacyValueString (m_payload (m_body c)) @ ''</MESSAGE>''
      else ''<MT>'' @ Type_ToString (m_type c) @ ''</MT>''
         @ ''<MK>'' @ LegacyKeyString (m_payload (m_body c)) @ ''</MK>''
         @ ''<MV>'' @ LegacyValueString (m_payload (m_body c)) @ ''</MV>''
         @ ''<MA>'' @ Action_ToString (m_action c) @ ''</MA>''
         @ ''<MPK>'' @ PublicKey_ToString cd (m_public_key c) @ ''</MPK>''
         @ ''<MS>'' @ Signature_ToString cd (m_signature c) @ ''</MS>'')"

subsection \<open>Transactions, blocks and the chain index\<close>

text \<open>
  Only the members that this file reads. \<open>GetContracts\<close> is the list of contracts that
  \<^verbatim>\<open>CTransaction::GetContracts()\<close> extracts; \<open>m_verified\<close> and \<open>GetBlockTime\<close> are what
  \<^verbatim>\<open>ReplayContracts\<close> reads from a loaded block. The \<^verbatim>\<open>pnext\<close>/\<^verbatim>\<open>pprev\<close> links of the
  chain index are the order of a list of \<open>CBlockIndex\<close> entries.
\<close>

record CTransaction =
  tx_nTime :: "32 word"
  GetContracts :: "Contract list"

record CBlockIndex =
  nHeight :: int
  nTime :: "32 word"
  nIsContract :: nat
  nIsSuperBlock :: nat
  nVersion :: int
  GetBlockHash :: uint256

record CBlock =
  hashPrevBlock :: uint256
  vtx :: "CTransaction list"
  m_verified :: "uint160 list"
  GetBlockTime :: int

record ContractContext =
  m_contract :: Contract
  m_tx :: CTransaction
  m_pindex :: CBlockIndex

subsection \<open>Process-wide state\<close>

datatype log_line =
  ContractLog string Contract   \<comment> \<open>\<^verbatim>\<open>Contract::Log(prefix)\<close>\<close>
  | ReplayLog int               \<comment> \<open>"Replaying contracts from block ..."\<close>
  | ErrorLog string             \<comment> \<open>\<^verbatim>\<open>error("Unknown contract action ignored: %s", ...)\<close>\<close>

text \<open>
  Modelled from the spec: the section-keyed key-value cache of \<^verbatim>\<open>gridcoin/appcache.h\<close>,
  which is not part of this file. The spec describes it as an external store, keyed by
  contract type name and legacy key, each entry holding a value and the transaction time.
\<close>

type_synonym AppCache = "string \<times> string \<Rightarrow> (string \<times> int) option"

text \<open>Modelled from the spec: \<^verbatim>\<open>StringToSection\<close>, missing from this file; sections are
  named by the contract type name.\<close>

definition StringToSection :: "string \<Rightarrow> string" where
  "StringToSection name = name"

text \<open>Modelled from the spec: the enumerator \<^verbatim>\<open>Section::PROTOCOL\<close>, missing from this file,
  as the section of the type name \<open>protocol\<close>.\<close>

definition Section_PROTOCOL :: string where
  "Section_PROTOCOL = ''protocol''"

text \<open>Modelled from the spec: the enumerator \<^verbatim>\<open>Section::SCRAPER\<close>, missing from this file,
  as the section of the type name \<open>scraper\<close>.\<close>

definition Section_SCRAPER :: string where
  "Section_SCRAPER = ''scraper''"

text \<open>Modelled from the spec: \<^verbatim>\<open>WriteCache\<close>, missing from this file, the write operation
  of the store: the entry under section and key becomes the value with its timestamp.\<close>

definition WriteCache :: "string \<Rightarrow> string \<Rightarrow> string \<Rightarrow> int \<Rightarrow> AppCache \<Rightarrow> AppCache" where
  "WriteCache section key val time cache = cache((section, key) \<mapsto> (val, time))"

text \<open>Modelled from the spec: \<^verbatim>\<open>DeleteCache\<close>, missing from this file, the delete
  operation of the store: the entry under section and key is removed.\<close>

definition DeleteCache :: "string \<Rightarrow> string \<Rightarrow> AppCache \<Rightarrow> AppCache" where
  "DeleteCache section key cache = cache((section, key) := None)"

text \<open>Modelled from the spec: \<^verbatim>\<open>ClearCache\<close>, missing from this file, which clears a
  section: every entry of the section is removed.\<close>

definition ClearCache :: "string \<Rightarrow> AppCache \<Rightarrow> AppCache" where
  "ClearCache section cache = (\<lambda>(sec, key). if sec = section then None else cache (sec, key))"

text \<open>
  The state that the functions of this file mutate: the cache above, the state \<open>'x\<close> of
  the external registries (beacons, polls and votes, whitelist), the dirty flag and the
  refresh hook of the researcher cache, and the debug log.
\<close>

record 'x node_state =
  appcache :: AppCache
  registries :: 'x
  researcher_dirty :: bool
  researcher_refreshes :: nat
  debug_log :: "log_line list"

text \<open>The interface \<^verbatim>\<open>IContractHandler\<close> as implemented by an external registry.\<close>

record 'x IContractHandler =
  h_Reset :: "'x \<Rightarrow> 'x"
  h_Validate :: "Contract \<Rightarrow> CTransaction \<Rightarrow> 'x \<Rightarrow> bool"
  h_Add :: "ContractContext \<Rightarrow> 'x \<Rightarrow> 'x"
  h_Delete :: "ContractContext \<Rightarrow> 'x \<Rightarrow> 'x"
  h_Revert :: "ContractContext \<Rightarrow> 'x \<Rightarrow> 'x"

text \<open>
  The remaining collaborators: the three registries, \<^verbatim>\<open>BeaconRegistry::ActivatePending\<close>,
  the payload parsers used by \<^verbatim>\<open>ConvertFromLegacy\<close>, the global \<^verbatim>\<open>fTestNet\<close>, the constant
  \<^verbatim>\<open>Beacon::MAX_AGE\<close>, \<^verbatim>\<open>BlockFinder::FindByMinTime\<close> (the position it returns in the
  chain) and \<^verbatim>\<open>CBlock::ReadFromDisk\<close> (success flag and the block object afterwards).
\<close>

record 'x collab =
  GetBeaconRegistry :: "'x IContractHandler"
  GetPollRegistry :: "'x IContractHandler"
  GetWhitelist :: "'x IContractHandler"
  ActivatePending :: "uint160 list \<Rightarrow> int \<Rightarrow> 'x \<Rightarrow> 'x"
  BeaconPayload_Parse :: "string \<Rightarrow> string \<Rightarrow> ContractPayload"
  Poll_Parse :: "string \<Rightarrow> ContractPayload"
  Project_make :: "string \<Rightarrow> string \<Rightarrow> ContractPayload"
  LegacyVote_Parse :: "string \<Rightarrow> string \<Rightarrow> ContractPayload"
  fTestNet :: bool
  MAX_AGE :: int
  FindByMinTime :: "CBlockIndex list \<Rightarrow> int \<Rightarrow> nat"
  ReadFromDisk :: "CBlock \<Rightarrow> CBlockIndex \<Rightarrow> bool \<times> CBlock"

definition Contract_Log :: "string \<Rightarrow> Contract \<Rightarrow> 'x node_state \<Rightarrow> 'x node_state" where
  "Contract_Log prefix c s = s\<lparr>debug_log := debug_log s @ [ContractLog prefix c]\<rparr>"

text \<open>Modelled from the spec: \<^verbatim>\<open>Researcher::MarkDirty\<close>, missing from this file, the hook
  that marks the researcher cache dirty.\<close>

definition MarkDirty :: "'x node_state \<Rightarrow> 'x node_state" where
  "MarkDirty s = s\<lparr>researcher_dirty := True\<rparr>"

text \<open>Modelled from the spec: \<^verbatim>\<open>Researcher::Refresh\<close>, missing from this file, the hook
  that triggers a refresh of the researcher cache; the state counts its calls.\<close>

definition Researcher_Refresh :: "'x node_state \<Rightarrow> 'x node_state" where
  "Researcher_Refresh s = s\<lparr>researcher_refreshes := Suc (researcher_refreshes s)\<rparr>"

text \<open>A call into an external registry acts on the registries' state only.\<close>

definition on_registries :: "('x \<Rightarrow> 'x) \<Rightarrow> 'x node_state \<Rightarrow> 'x node_state" where
  "on_registries f s = s\<lparr>registries := f (registries s)\<rparr>"

subsection \<open>Class \<^verbatim>\<open>Contract::Body\<close> and payload sharing\<close>

definition AssumeLegacy :: "Body \<Rightarrow> ContractPayload" where
  "AssumeLegacy b = m_payload b"

definition ConvertFromLegacy :: "'x collab \<Rightarrow> Body \<Rightarrow> ContractType \<Rightarrow> error + ContractPayload" where
  "ConvertFromLegacy col b type =
     (case cast_LegacyPayload (m_payload b) of
        Inl e \<Rightarrow> Inl e
      | Inr (key, val) \<Rightarrow>
          (case type of
             UNKNOWN \<Rightarrow> Inr EmptyPayload
           | BEACON \<Rightarrow> Inr (BeaconPayload_Parse col key val)
           | CLAIM \<Rightarrow> Inl AssertionFailed
           | MESSAGE \<Rightarrow> Inl AssertionFailed
           | POLL \<Rightarrow> Inr (Poll_Parse col val)
           | PROJECT \<Rightarrow> Inr (Project_make col key val)
           | PROTOCOL \<Rightarrow> Inr (m_payload b)
           | SCRAPER \<Rightarrow> Inr (m_payload b)
           | VOTE \<Rightarrow> Inr (LegacyVote_Parse col key val)
           | OUT_OF_BOUND \<Rightarrow> Inl AssertionFailed))"

definition SharePayload :: "'x collab \<Rightarrow> Contract \<Rightarrow> error + ContractPayload" where
  "SharePayload col c =
     (if m_version c > 1 then Inr (m_payload (m_body c))
      else ConvertFromLegacy col (m_body c) (m_type c))"

definition SharePayloadAs_LegacyPayload :: "'x collab \<Rightarrow> Contract \<Rightarrow> error + (string \<times> string)" where
  "SharePayloadAs_LegacyPayload col c =
     (case SharePayload col c of
        Inl e \<Rightarrow> Inl e
      | Inr p \<Rightarrow> cast_LegacyPayload p)"

subsection \<open>Signature verification\<close>

text \<open>\<^verbatim>\<open>VerifySignature\<close> and \<^verbatim>\<open>Validate\<close> return their result and the lines they log.\<close>

definition VerifySignature :: "crypto \<Rightarrow> Contract \<Rightarrow> error + (bool \<times> log_line list)" where
  "VerifySignature cr c =
     (if \<not> SetPubKey cr (ResolvePublicKey cr c)
      then Inr (False, [ContractLog ''ERROR: Failed to set contract public key'' c])
      else (case GetHash cr c of
              Inl e \<Rightarrow> Inl e
            | Inr h \<Rightarrow> Inr (Verify cr (ResolvePublicKey cr c) h (m_signature c), [])))"

definition Validate :: "crypto \<Rightarrow> Contract \<Rightarrow> error + (bool \<times> log_line list)" where
  "Validate cr c =
     (if WellFormed cr c
      then (if m_version c > 1 then Inr (True, []) else VerifySignature cr c)
      else Inr (False, []))"

subsection \<open>The handlers of this file\<close>

definition AppCacheContractHandler_Reset :: "'x node_state \<Rightarrow> 'x node_state" where
  "AppCacheContractHandler_Reset s =
     s\<lparr>appcache := ClearCache Section_SCRAPER (ClearCache Section_PROTOCOL (appcache s))\<rparr>"

definition AppCacheContractHandler_Add ::
  "'x collab \<Rightarrow> ContractContext \<Rightarrow> 'x node_state \<Rightarrow> error + 'x node_state" where
  "AppCacheContractHandler_Add col ctx s =
     (case SharePayloadAs_LegacyPayload col (m_contract ctx) of
        Inl e \<Rightarrow> Inl e
      | Inr (key, val) \<Rightarrow>
          Inr (s\<lparr>appcache :=
                 WriteCache (StringToSection (Type_ToString (m_type (m_contract ctx))))
                   key val (uint (tx_nTime (m_tx ctx))) (appcache s)\<rparr>))"

definition AppCacheContractHandler_Delete ::
  "'x collab \<Rightarrow> ContractContext \<Rightarrow> 'x node_state \<Rightarrow> error + 'x node_state" where
  "AppCacheContractHandler_Delete col ctx s =
     (case SharePayloadAs_LegacyPayload col (m_contract ctx) of
        Inl e \<Rightarrow> Inl e
      | Inr (key, val) \<Rightarrow>
          Inr (s\<lparr>appcache :=
                 DeleteCache (StringToSection (Type_ToString (m_type (m_contract ctx))))
                   key (appcache s)\<rparr>))"

definition UnknownContractHandler_Add :: "ContractContext \<Rightarrow> 'x node_state \<Rightarrow> 'x node_state" where
  "UnknownContractHandler_Add ctx s =
     Contract_Log ''WARNING: Add unknown contract type ignored'' (m_contract ctx) s"

definition UnknownContractHandler_Delete :: "ContractContext \<Rightarrow> 'x node_state \<Rightarrow> 'x node_state" where
  "UnknownContractHandler_Delete ctx s =
     Contract_Log ''WARNING: Delete unknown contract type ignored'' (m_contract ctx) s"

definition UnknownContractHandler_Revert :: "ContractContext \<Rightarrow> 'x node_state \<Rightarrow> 'x node_state" where
  "UnknownContractHandler_Revert ctx s =
     Contract_Log ''WARNING: Revert unknown contract type ignored'' (m_contract ctx) s"

text \<open>The default \<^verbatim>\<open>IContractHandler::Revert\<close>, over the \<^verbatim>\<open>Add\<close> and \<^verbatim>\<open>Delete\<close> of the
  handler that inherits it.\<close>

definition IContractHandler_Revert ::
  "(ContractContext \<Rightarrow> 'x node_state \<Rightarrow> error + 'x node_state)
   \<Rightarrow> (ContractContext \<Rightarrow> 'x node_state \<Rightarrow> error + 'x node_state)
   \<Rightarrow> ContractContext \<Rightarrow> 'x node_state \<Rightarrow> error + 'x node_state" where
  "IContractHandler_Revert Add Delete ctx s =
     (if m_action (m_contract ctx) = ADD then Delete ctx s
      else if m_action (m_contract ctx) = REMOVE then Add ctx s
      else Inr (s\<lparr>debug_log := debug_log s
             @ [ErrorLog (''Unknown contract action ignored: ''
                          @ Action_ToString (m_action (m_contract ctx)))]\<rparr>))"

subsection \<open>Class \<^verbatim>\<open>Dispatcher\<close>\<close>

datatype handler =
  BeaconRegistry | PollRegistry | Whitelist | m_appcache_handler | m_unknown_handler

definition GetHandler :: "ContractType \<Rightarrow> handler" where
  "GetHandler type =
     (case type of
        BEACON \<Rightarrow> BeaconRegistry
      | POLL \<Rightarrow> PollRegistry
      | PROJECT \<Rightarrow> Whitelist
      | PROTOCOL \<Rightarrow> m_appcache_handler
      | SCRAPER \<Rightarrow> m_appcache_handler
      | VOTE \<Rightarrow> PollRegistry
      | _ \<Rightarrow> m_unknown_handler)"

text \<open>Virtual calls on the handler that \<^verbatim>\<open>GetHandler\<close> selected.\<close>

definition handler_Add ::
  "'x collab \<Rightarrow> handler \<Rightarrow> ContractContext \<Rightarrow> 'x node_state \<Rightarrow> error + 'x node_state" where
  "handler_Add col h ctx s =
     (case h of
        BeaconRegistry \<Rightarrow> Inr (on_registries (h_Add (GetBeaconRegistry col) ctx) s)
      | PollRegistry \<Rightarrow> Inr (on_registries (h_Add (GetPollRegistry col) ctx) s)
      | Whitelist \<Rightarrow> Inr (on_registries (h_Add (GetWhitelist col) ctx) s)
      | m_appcache_handler \<Rightarrow> AppCacheContractHandler_Add col ctx s
      | m_unknown_handler \<Rightarrow> Inr (UnknownContractHandler_Add ctx s))"

definition handler_Delete ::
  "'x collab \<Rightarrow> handler \<Rightarrow> ContractContext \<Rightarrow> 'x node_state \<Rightarrow> error + 'x node_state" where
  "handler_Delete col h ctx s =
     (case h of
        BeaconRegistry \<Rightarrow> Inr (on_registries (h_Delete (GetBeaconRegistry col) ctx) s)
      | PollRegistry \<Rightarrow> Inr (on_registries (h_Delete (GetPollRegistry col) ctx) s)
      | Whitelist \<Rightarrow> Inr (on_registries (h_Delete (GetWhitelist col) ctx) s)
      | m_appcache_handler \<Rightarrow> AppCacheContractHandler_Delete col ctx s
      | m_unknown_handler \<Rightarrow> Inr (UnknownContractHandler_Delete ctx s))"

definition handler_Revert ::
  "'x collab \<Rightarrow> handler \<Rightarrow> ContractContext \<Rightarrow> 'x node_state \<Rightarrow> error + 'x node_state" where
  "handler_Revert col h ctx s =
     (case h of
        BeaconRegistry \<Rightarrow> Inr (on_registries (h_Revert (GetBeaconRegistry col) ctx) s)
      | PollRegistry \<Rightarrow> Inr (on_registries (h_Revert (GetPollRegistry col) ctx) s)
      | Whitelist \<Rightarrow> Inr (on_registries (h_Revert (GetWhitelist col) ctx) s)
      | m_appcache_handler \<Rightarrow>
          IContractHandler_Revert
            (AppCacheContractHandler_Add col) (AppCacheContractHandler_Delete col) ctx s
      | m_unknown_handler \<Rightarrow> Inr (UnknownContractHandler_Revert ctx s))"

definition handler_Validate ::
  "'x collab \<Rightarrow> handler \<Rightarrow> Contract \<Rightarrow> CTransaction \<Rightarrow> 'x node_state \<Rightarrow> bool" where
  "handler_Validate col h c tx s =
     (case h of
        BeaconRegistry \<Rightarrow> h_Validate (GetBeaconRegistry col) c tx (registries s)
      | PollRegistry \<Rightarrow> h_Validate (GetPollRegistry col) c tx (registries s)
      | Whitelist \<Rightarrow> h_Validate (GetWhitelist col) c tx (registries s)
      | m_appcache_handler \<Rightarrow> True
      | m_unknown_handler \<Rightarrow> True)"

definition ResetHandlers :: "'x collab \<Rightarrow> 'x node_state \<Rightarrow> 'x node_state" where
  "ResetHandlers col s =
     AppCacheContractHandler_Reset
       (on_registries (h_Reset (GetWhitelist col))
         (on_registries (h_Reset (GetPollRegistry col))
           (on_registries (h_Reset (GetBeaconRegistry col)) s)))"

definition Dispatcher_Apply ::
  "'x collab \<Rightarrow> ContractContext \<Rightarrow> 'x node_state \<Rightarrow> error + 'x node_state" where
  "Dispatcher_Apply col ctx s =
     (if m_action (m_contract ctx) = ADD
      then handler_Add col (GetHandler (m_type (m_contract ctx))) ctx
             (Contract_Log ''INFO: Add contract'' (m_contract ctx) s)
      else if m_action (m_contract ctx) = REMOVE
      then handler_Delete col (GetHandler (m_type (m_contract ctx))) ctx
             (Contract_Log ''INFO: Delete contract'' (m_contract ctx) s)
      else Inr (Contract_Log ''WARNING: Unknown contract action ignored'' (m_contract ctx) s))"

definition Dispatcher_Validate ::
  "'x collab \<Rightarrow> Contract \<Rightarrow> CTransaction \<Rightarrow> 'x node_state \<Rightarrow> bool" where
  "Dispatcher_Validate col c tx s = handler_Validate col (GetHandler (m_type c)) c tx s"

definition Dispatcher_Revert ::
  "'x collab \<Rightarrow> ContractContext \<Rightarrow> 'x node_state \<Rightarrow> error + 'x node_state" where
  "Dispatcher_Revert col ctx s =
     handler_Revert col (GetHandler (m_type (m_contract ctx))) ctx
       (Contract_Log ''INFO: Revert contract'' (m_contract ctx) s)"

subsection \<open>Global functions: apply, validate, revert\<close>

text \<open>
  The test at the head of the loop body of \<^verbatim>\<open>ApplyContracts\<close>:
  \<^verbatim>\<open>contract.m_version == 1 && !contract.Validate()\<close>, with the lines \<^verbatim>\<open>Validate\<close> logged.
\<close>

definition skip_check :: "crypto \<Rightarrow> Contract \<Rightarrow> error + (bool \<times> log_line list)" where
  "skip_check cr c =
     (if m_version c = 1
      then (case Validate cr c of
              Inl e \<Rightarrow> Inl e
            | Inr (valid, lines) \<Rightarrow> Inr (\<not> valid, lines))
      else Inr (False, []))"

definition team_whitelist_key :: "string \<Rightarrow> bool" where
  "team_whitelist_key key =
     (key = ''REQUIRE_TEAM_WHITELIST_MEMBERSHIP'' \<or> key = ''TEAM_WHITELIST'')"

text \<open>The loop of \<^verbatim>\<open>ApplyContracts(tx, pindex, out_found_contract)\<close> over the contracts
  that remain; the flag is the in-out parameter \<^verbatim>\<open>out_found_contract\<close>.\<close>

fun ApplyContracts_loop ::
  "crypto \<Rightarrow> 'x collab \<Rightarrow> CTransaction \<Rightarrow> CBlockIndex \<Rightarrow> Contract list
   \<Rightarrow> 'x node_state \<Rightarrow> bool \<Rightarrow> error + ('x node_state \<times> bool)" where
  "ApplyContracts_loop cr col tx pindex [] s found = Inr (s, found)"
| "ApplyContracts_loop cr col tx pindex (contract # rest) s found =
     (case skip_check cr contract of
        Inl e \<Rightarrow> Inl e
      | Inr (skip, lines) \<Rightarrow>
          if skip
          then ApplyContracts_loop cr col tx pindex rest
                 (s\<lparr>debug_log := debug_log s @ lines\<rparr>) found
          else
            (case Dispatcher_Apply col
                    \<lparr>m_contract = contract, m_tx = tx, m_pindex = pindex\<rparr>
                    (if m_type contract = PROTOCOL
                        \<and> team_whitelist_key
                            (LegacyKeyString (AssumeLegacy (m_body contract)))
                     then MarkDirty (s\<lparr>debug_log := debug_log s @ lines\<rparr>)
                     else s\<lparr>debug_log := debug_log s @ lines\<rparr>) of
               Inl e \<Rightarrow> Inl e
             | Inr s' \<Rightarrow>
                 ApplyContracts_loop cr col tx pindex rest s'
                   (found \<or> m_type contract \<noteq> MESSAGE)))"

definition ApplyContracts_tx ::
  "crypto \<Rightarrow> 'x collab \<Rightarrow> CTransaction \<Rightarrow> CBlockIndex
   \<Rightarrow> 'x node_state \<Rightarrow> bool \<Rightarrow> error + ('x node_state \<times> bool)" where
  "ApplyContracts_tx cr col tx pindex s found =
     ApplyContracts_loop cr col tx pindex (GetContracts tx) s found"

fun ApplyContracts_txs ::
  "crypto \<Rightarrow> 'x collab \<Rightarrow> CTransaction list \<Rightarrow> CBlockIndex
   \<Rightarrow> 'x node_state \<Rightarrow> bool \<Rightarrow> error + ('x node_state \<times> bool)" where
  "ApplyContracts_txs cr col [] pindex s found = Inr (s, found)"
| "ApplyContracts_txs cr col (tx # txs) pindex s found =
     (case ApplyContracts_tx cr col tx pindex s found of
        Inl e \<Rightarrow> Inl e
      | Inr (s', found') \<Rightarrow> ApplyContracts_txs cr col txs pindex s' found')"

text \<open>\<^verbatim>\<open>ApplyContracts(block, pindex, out_found_contract)\<close>: the flag starts from false;
  the iterator \<^verbatim>\<open>std::next(block.vtx.begin(), 2)\<close> exists only in a block of two
  transactions or more.\<close>

definition ApplyContracts_block ::
  "crypto \<Rightarrow> 'x collab \<Rightarrow> CBlock \<Rightarrow> CBlockIndex
   \<Rightarrow> 'x node_state \<Rightarrow> error + ('x node_state \<times> bool)" where
  "ApplyContracts_block cr col block pindex s =
     (if length (vtx block) < 2 then Inl IteratorOutOfRange
      else ApplyContracts_txs cr col (drop 2 (vtx block)) pindex s False)"

fun ValidateContracts_loop ::
  "'x collab \<Rightarrow> CTransaction \<Rightarrow> Contract list \<Rightarrow> 'x node_state \<Rightarrow> bool" where
  "ValidateContracts_loop col tx [] s = True"
| "ValidateContracts_loop col tx (contract # rest) s =
     (if \<not> Dispatcher_Validate col contract tx s then False
      else ValidateContracts_loop col tx rest s)"

definition ValidateContracts :: "'x collab \<Rightarrow> CTransaction \<Rightarrow> 'x node_state \<Rightarrow> bool" where
  "ValidateContracts col tx s = ValidateContracts_loop col tx (GetContracts tx) s"

fun RevertContracts_loop ::
  "crypto \<Rightarrow> 'x collab \<Rightarrow> CTransaction \<Rightarrow> CBlockIndex \<Rightarrow> Contract list
   \<Rightarrow> 'x node_state \<Rightarrow> error + 'x node_state" where
  "RevertContracts_loop cr col tx pindex [] s = Inr s"
| "RevertContracts_loop cr col tx pindex (contract # rest) s =
     (case (if m_version contract = 1
            then (case VerifySignature cr contract of
                    Inl e \<Rightarrow> Inl e
                  | Inr (ok, lines) \<Rightarrow> Inr (\<not> ok, lines))
            else Inr (False, [])) of
        Inl e \<Rightarrow> Inl e
      | Inr (skip, lines) \<Rightarrow>
          if skip
          then RevertContracts_loop cr col tx pindex rest
                 (s\<lparr>debug_log := debug_log s @ lines\<rparr>)
          else
            (case Dispatcher_Revert col
                    \<lparr>m_contract = contract, m_tx = tx, m_pindex = pindex\<rparr>
                    (s\<lparr>debug_log := debug_log s @ lines\<rparr>) of
               Inl e \<Rightarrow> Inl e
             | Inr s' \<Rightarrow> RevertContracts_loop cr col tx pindex rest s'))"

definition RevertContracts ::
  "crypto \<Rightarrow> 'x collab \<Rightarrow> CTransaction \<Rightarrow> CBlockIndex
   \<Rightarrow> 'x node_state \<Rightarrow> error + 'x node_state" where
  "RevertContracts cr col tx pindex s =
     RevertContracts_loop cr col tx pindex (GetContracts tx) s"

subsection \<open>\<^verbatim>\<open>ReplayContracts\<close>\<close>

text \<open>The second half of the loop body: the superblock branch. \<open>pprev\<close> is the entry
  before \<open>pindex\<close>, if there is one.\<close>

definition Replay_superblock ::
  "'x collab \<Rightarrow> CBlockIndex option \<Rightarrow> CBlockIndex \<Rightarrow> CBlock \<Rightarrow> 'x node_state
   \<Rightarrow> error + (CBlock \<times> 'x node_state)" where
  "Replay_superblock col pprev pindex block s =
     (if nIsSuperBlock pindex = 1 \<and> nVersion pindex \<ge> 11
      then (case pprev of
              None \<Rightarrow> Inl NullPointer
            | Some prev \<Rightarrow>
                if hashPrevBlock block \<noteq> GetBlockHash prev
                then (case ReadFromDisk col block pindex of
                        (ok, block') \<Rightarrow>
                          if \<not> ok then Inr (block', s)
                          else Inr (block',
                                 on_registries
                                   (ActivatePending col (m_verified block') (GetBlockTime block'))
                                   s))
                else Inr (block,
                       on_registries
                         (ActivatePending col (m_verified block) (GetBlockTime block)) s))
      else Inr (block, s))"

text \<open>One iteration of the loop; a \<^verbatim>\<open>continue\<close> returns the block object and the state
  as they are at that point.\<close>

definition Replay_step ::
  "crypto \<Rightarrow> 'x collab \<Rightarrow> CBlockIndex option \<Rightarrow> CBlockIndex \<Rightarrow> CBlock \<Rightarrow> 'x node_state
   \<Rightarrow> error + (CBlock \<times> 'x node_state)" where
  "Replay_step cr col pprev pindex block s =
     (if nIsContract pindex = 1
      then (case ReadFromDisk col block pindex of
              (ok, block') \<Rightarrow>
                if \<not> ok then Inr (block', s)
                else (case ApplyContracts_block cr col block' pindex s of
                        Inl e \<Rightarrow> Inl e
                      | Inr (s', unused) \<Rightarrow> Replay_superblock col pprev pindex block' s'))
      else Replay_superblock col pprev pindex block s)"

fun Replay_loop ::
  "crypto \<Rightarrow> 'x collab \<Rightarrow> CBlockIndex option \<Rightarrow> CBlockIndex list \<Rightarrow> CBlock
   \<Rightarrow> 'x node_state \<Rightarrow> error + 'x node_state" where
  "Replay_loop cr col pprev [] block s = Inr s"
| "Replay_loop cr col pprev (pindex # pnext) block s =
     (case Replay_step cr col pprev pindex block s of
        Inl e \<Rightarrow> Inl e
      | Inr (block', s') \<Rightarrow> Replay_loop cr col (Some pindex) pnext block' s')"

text \<open>A default-constructed \<^verbatim>\<open>CBlock\<close>.\<close>

definition CBlock_null :: CBlock where
  "CBlock_null = \<lparr>hashPrevBlock = 0, vtx = [], m_verified = [], GetBlockTime = 0\<rparr>"

text \<open>\<^verbatim>\<open>ReplayContracts(pindex)\<close>, where \<open>pindex\<close> is the entry at position \<open>i\<close> of the
  chain index.\<close>

definition ReplayContracts ::
  "crypto \<Rightarrow> 'x collab \<Rightarrow> CBlockIndex list \<Rightarrow> nat \<Rightarrow> 'x node_state
   \<Rightarrow> error + 'x node_state" where
  "ReplayContracts cr col chain i s =
     (if i \<ge> length chain then Inl NullPointer
      else
        (let j = FindByMinTime col chain (uint (nTime (chain ! i)) - MAX_AGE col) in
         if j \<ge> length chain then Inl NullPointer
         else
           (let s1 = s\<lparr>debug_log := debug_log s @ [ReplayLog (nHeight (chain ! j))]\<rparr> in
            if nHeight (chain ! j) < (if fTestNet col then 1 else 164618) then Inr s1
            else (case Replay_loop cr col
                         (if j = 0 then None else Some (chain ! (j - 1)))
                         (drop j chain) CBlock_null (ResetHandlers col s1) of
                    Inl e \<Rightarrow> Inl e
                  | Inr s2 \<Rightarrow> Inr (Researcher_Refresh s2)))))"

subsection \<open>Notions used to state the properties\<close>

text \<open>A contract fails \<^verbatim>\<open>Validate()\<close> when the call returns false.\<close>

definition fails_Validate :: "crypto \<Rightarrow> Contract \<Rightarrow> bool" where
  "fails_Validate cr c = (case Validate cr c of Inl e \<Rightarrow> False | Inr (valid, lines) \<Rightarrow> \<not> valid)"

definition skipped :: "crypto \<Rightarrow> Contract \<Rightarrow> bool" where
  "skipped cr c = (m_version c = 1 \<and> fails_Validate cr c)"

text \<open>\<^verbatim>\<open>Dispatcher::Apply\<close> followed by \<^verbatim>\<open>Dispatcher::Revert\<close> on the same context.\<close>

definition apply_then_revert ::
  "'x collab \<Rightarrow> ContractContext \<Rightarrow> 'x node_state \<Rightarrow> error + 'x node_state" where
  "apply_then_revert col ctx s =
     (case Dispatcher_Apply col ctx s of
        Inl e \<Rightarrow> Inl e
      | Inr s' \<Rightarrow> Dispatcher_Revert col ctx s')"

text \<open>The state that handlers hold: the cache and the external registries.\<close>

definition handler_visible :: "error + 'x node_state \<Rightarrow> (AppCache \<times> 'x) option" where
  "handler_visible r = (case r of Inl e \<Rightarrow> None | Inr s \<Rightarrow> Some (appcache s, registries s))"

text \<open>
  The invariant that the comments at the two \<^verbatim>\<open>static_cast\<close>s rely on: the payload of a
  version 1 contract, and of any contract routed to the cache handler, is a
  \<^verbatim>\<open>LegacyPayload\<close>.
\<close>

fun is_LegacyPayload :: "ContractPayload \<Rightarrow> bool" where
  "is_LegacyPayload (LegacyPayload key val) = True"
| "is_LegacyPayload EmptyPayload = False"
| "is_LegacyPayload (TypedPayload chk key val) = False"

definition payload_as_expected :: "Contract \<Rightarrow> bool" where
  "payload_as_expected c =
     (is_LegacyPayload (m_payload (m_body c))
      \<or> (m_version c \<noteq> 1 \<and> GetHandler (m_type c) \<noteq> m_appcache_handler))"

subsection \<open>Concrete collaborators and inputs\<close>

text \<open>Instances of the parameters and sample inputs, on which the properties below are
  evaluated.\<close>

definition example_crypto :: crypto where
  "example_crypto =
     \<lparr>CURRENT_VERSION = 2,
      MasterPublicKey = [0x02, 0x11],
      Hash = (\<lambda>t k v. of_nat (length t + 3 * length k + 7 * length v)),
      SerializeHash = (\<lambda>c. of_nat (length (m_signature c))),
      SetPubKey = (\<lambda>key. length key = 33 \<or> length key = 65),
      Verify = (\<lambda>key h sig. sig \<noteq> [] \<and> hd sig = 0x30),
      IsValid = (\<lambda>key. length key = 33 \<or> length key = 65)\<rparr>"

text \<open>The text between the first \<open>key\<close> and the next \<open>key_end\<close>, empty when either is
  missing.\<close>

fun text_after :: "string \<Rightarrow> string \<Rightarrow> string option" where
  "text_after tag [] = (if tag = [] then Some [] else None)"
| "text_after tag (ch # s) =
     (if take (length tag) (ch # s) = tag then Some (drop (length tag) (ch # s))
      else text_after tag s)"

fun text_before :: "string \<Rightarrow> string \<Rightarrow> string option" where
  "text_before tag [] = (if tag = [] then Some [] else None)"
| "text_before tag (ch # s) =
     (if take (length tag) (ch # s) = tag then Some []
      else map_option ((#) ch) (text_before tag s))"

definition tag_text :: "string \<Rightarrow> string \<Rightarrow> string \<Rightarrow> string" where
  "tag_text data key key_end =
     (case text_after key data of
        None \<Rightarrow> []
      | Some rest \<Rightarrow> (case text_before key_end rest of None \<Rightarrow> [] | Some t \<Rightarrow> t))"

text \<open>A two-letter stand-in for the base64 and hex codecs.\<close>

definition example_codec :: codec where
  "example_codec =
     \<lparr>ExtractXML = tag_text,
      DecodeBase64 = (\<lambda>s. (map (\<lambda>ch. if ch = CHR ''0'' then 0 else 1) s, False)),
      EncodeBase64 = map (\<lambda>b. if b = 0 then CHR ''0'' else CHR ''1''),
      HexStr = map (\<lambda>b. if b = 0 then CHR ''0'' else CHR ''1'')\<rparr>"

text \<open>A registry that counts its entries.\<close>

definition example_registry :: "nat IContractHandler" where
  "example_registry =
     \<lparr>h_Reset = (\<lambda>x. 0),
      h_Validate = (\<lambda>c tx x. True),
      h_Add = (\<lambda>ctx x. Suc x),
      h_Delete = (\<lambda>ctx x. x - 1),
      h_Revert = (\<lambda>ctx x. if m_action (m_contract ctx) = ADD then x - 1 else Suc x)\<rparr>"

definition example_collab :: "nat collab" where
  "example_collab =
     \<lparr>GetBeaconRegistry = example_registry,
      GetPollRegistry = example_registry,
      GetWhitelist = example_registry,
      ActivatePending = (\<lambda>verified time x. x + length verified),
      BeaconPayload_Parse = (\<lambda>key val. TypedPayload (\<lambda>a. key \<noteq> []) key val),
      Poll_Parse = (\<lambda>val. TypedPayload (\<lambda>a. val \<noteq> []) [] val),
      Project_make = (\<lambda>key val. TypedPayload (\<lambda>a. key \<noteq> []) key val),
      LegacyVote_Parse = (\<lambda>key val. TypedPayload (\<lambda>a. key \<noteq> []) key val),
      fTestNet = False,
      MAX_AGE = 15552000,
      FindByMinTime = (\<lambda>chain t. length (takeWhile (\<lambda>p. uint (nTime p) < t) chain)),
      ReadFromDisk = (\<lambda>block pindex. (False, block))\<rparr>"

definition legacy_contract ::
  "ContractType \<Rightarrow> ContractAction \<Rightarrow> string \<Rightarrow> string \<Rightarrow> bytes \<Rightarrow> CPubKey \<Rightarrow> Contract" where
  "legacy_contract t a key val sg pk =
     \<lparr>m_version = 1, m_type = t, m_action = a,
      m_body = \<lparr>m_payload = LegacyPayload key val\<rparr>, m_signature = sg, m_public_key = pk\<rparr>"

definition typed_contract ::
  "ContractType \<Rightarrow> ContractAction \<Rightarrow> ContractPayload \<Rightarrow> Contract" where
  "typed_contract t a payload =
     \<lparr>m_version = 2, m_type = t, m_action = a,
      m_body = \<lparr>m_payload = payload\<rparr>, m_signature = [], m_public_key = []\<rparr>"

definition signature64 :: bytes where
  "signature64 = replicate 64 0x30"

definition example_index :: CBlockIndex where
  "example_index =
     \<lparr>nHeight = 200000, nTime = 1600000000, nIsContract = 1, nIsSuperBlock = 0,
      nVersion = 11, GetBlockHash = 7\<rparr>"

definition example_chain :: "CBlockIndex list" where
  "example_chain =
     [\<lparr>nHeight = 100, nTime = 1500000000, nIsContract = 1, nIsSuperBlock = 0,
       nVersion = 7, GetBlockHash = 5\<rparr>,
      \<lparr>nHeight = 101, nTime = 1500000090, nIsContract = 0, nIsSuperBlock = 0,
       nVersion = 7, GetBlockHash = 6\<rparr>]"

definition example_state :: "nat node_state" where
  "example_state =
     \<lparr>appcache = [(''protocol'', ''K'') \<mapsto> (''old'', 1)], registries = 0,
      researcher_dirty = False, researcher_refreshes = 0, debug_log = []\<rparr>"

definition example_tx :: "Contract list \<Rightarrow> CTransaction" where
  "example_tx cs = \<lparr>tx_nTime = 1600000000, GetContracts = cs\<rparr>"

definition example_ctx :: "Contract \<Rightarrow> ContractContext" where
  "example_ctx c = \<lparr>m_contract = c, m_tx = example_tx [c], m_pindex = example_index\<rparr>"

definition example_message :: string where
  "example_message =
     ''<MT>protocol</MT><MK>k</MK><MV>v</MV><MA>A</MA><MPK></MPK><MS>''
     @ ''0110100101101001011010010110100101101001011010010110100101101001'' @ ''</MS>''"

definition unsigned_contract :: Contract where
  "unsigned_contract = legacy_contract PROTOCOL ADD ''TEAM_WHITELIST'' ''x'' [] []"

definition message_contract :: Contract where
  "message_contract = typed_contract MESSAGE ADD (TypedPayload (\<lambda>a. True) [] ''hello'')"

definition beacon_contract :: Contract where
  "beacon_contract = typed_contract BEACON ADD (TypedPayload (\<lambda>a. True) ''cpid'' ''key'')"

definition whitelist_contract :: Contract where
  "whitelist_contract = typed_contract PROTOCOL ADD (LegacyPayload ''TEAM_WHITELIST'' ''x'')"

definition other_contract :: Contract where
  "other_contract = typed_contract PROTOCOL ADD (LegacyPayload ''OTHER'' ''x'')"

text \<open>A block whose first transaction carries a beacon contract and whose third carries
  an unsigned version 1 contract and a message.\<close>

definition example_block :: CBlock where
  "example_block =
     \<lparr>hashPrevBlock = 5,
      vtx = [example_tx [beacon_contract], example_tx [],
             example_tx [unsigned_contract, message_contract]],
      m_verified = [], GetBlockTime = 1600000000\<rparr>"

section \<open>Properties\<close>

subsection \<open>Key resolution\<close>

text \<open>
  C1 (amended). \<^verbatim>\<open>ResolvePublicKey\<close> returns the fixed message key for an ADD of type
  BEACON, POLL or VOTE; otherwise the wallet's master key for every PROJECT, PROTOCOL and
  SCRAPER contract, for a REMOVE of type POLL or VOTE, and for a BEACON REMOVE of
  version 1; otherwise the public key embedded in the contract.
\<close>

theorem ResolvePublicKey_policy:
  "ResolvePublicKey cr c =
    (if m_type c \<in> {BEACON, POLL, VOTE} \<and> m_action c = ADD then MessagePublicKey
     else if m_type c \<in> {PROJECT, PROTOCOL, SCRAPER}
          \<or> (m_type c \<in> {POLL, VOTE} \<and> m_action c = REMOVE)
          \<or> (m_type c = BEACON \<and> m_action c = REMOVE \<and> m_version c = 1)
     then MasterPublicKey cr
     else m_public_key c)"
  by (cases "m_type c")
     (auto simp: ResolvePublicKey_def RequiresMessageKey_def RequiresMasterKey_def)

text \<open>The policy at a PROJECT ADD, a POLL ADD and a version 2 BEACON REMOVE.\<close>

theorem ResolvePublicKey_policy_witness:
  "ResolvePublicKey example_crypto (typed_contract PROJECT ADD EmptyPayload) = [0x02, 0x11]
   \<and> ResolvePublicKey example_crypto (typed_contract POLL ADD EmptyPayload) = MessagePublicKey
   \<and> ResolvePublicKey example_crypto (typed_contract BEACON REMOVE EmptyPayload) = []"
  using ResolvePublicKey_policy[of example_crypto "typed_contract PROJECT ADD EmptyPayload"]
    ResolvePublicKey_policy[of example_crypto "typed_contract POLL ADD EmptyPayload"]
    ResolvePublicKey_policy[of example_crypto "typed_contract BEACON REMOVE EmptyPayload"]
  by (simp add: typed_contract_def example_crypto_def)

text \<open>
  C1 as stated fails at (BEACON, ADD): the message key is required there, and it is the
  message key that is returned, not the embedded key.
\<close>

theorem ResolvePublicKey_beacon_add_counterexample:
  "RequiresMessageKey (typed_contract BEACON ADD EmptyPayload)
   \<and> ResolvePublicKey example_crypto (typed_contract BEACON ADD EmptyPayload) = MessagePublicKey
   \<and> ResolvePublicKey example_crypto (typed_contract BEACON ADD EmptyPayload)
       \<noteq> m_public_key (typed_contract BEACON ADD EmptyPayload)"
  by (simp add: typed_contract_def RequiresMessageKey_def ResolvePublicKey_def
      MessagePublicKey_def)

subsection \<open>Hashing\<close>

text \<open>
  C2. The hash of a version 1 contract (whose payload is the \<^verbatim>\<open>LegacyPayload\<close> that
  \<^verbatim>\<open>GetHash\<close> casts to) is the hash of the type name, the legacy key and the legacy
  value, and nothing else: two version 1 contracts with the same type, key and value have
  the same hash, whatever their actions, signatures and public keys.
\<close>

theorem GetHash_version1:
  assumes "m_version c = 1" and "m_version c' = 1"
    and "m_payload (m_body c) = LegacyPayload key val"
    and "m_payload (m_body c') = LegacyPayload key val"
    and "m_type c' = m_type c"
  shows "GetHash cr c = Inr (Hash cr (Type_ToString (m_type c)) key val)
         \<and> GetHash cr c' = GetHash cr c"
  using assms by (simp add: GetHash_def)

text \<open>Two beacon contracts that differ in action, signature and public key.\<close>

theorem GetHash_version1_witness:
  "GetHash example_crypto (legacy_contract BEACON ADD ''k'' ''v'' [] []) = Inr 16
   \<and> GetHash example_crypto (legacy_contract BEACON REMOVE ''k'' ''v'' [0x30] [0x02])
       = GetHash example_crypto (legacy_contract BEACON ADD ''k'' ''v'' [] [])"
  using GetHash_version1[of "legacy_contract BEACON ADD ''k'' ''v'' [] []"
      "legacy_contract BEACON REMOVE ''k'' ''v'' [0x30] [0x02]" "''k''" "''v''" example_crypto]
  by (simp add: legacy_contract_def example_crypto_def)

subsection \<open>Structural validity\<close>

text \<open>
  C5. \<^verbatim>\<open>WellFormed\<close> holds exactly when the version is positive and at most the current
  version, type and action are not UNKNOWN, the payload passes its own check, and, for
  version 1, the signature is viable and either a special key is required or the embedded
  public key is viable. In particular it is false when the type or the action is UNKNOWN
  or the payload check fails, whatever the signature and the public key are.
\<close>

theorem WellFormed_requirements:
  "(WellFormed cr c \<longleftrightarrow>
     0 < m_version c \<and> m_version c \<le> CURRENT_VERSION cr
     \<and> m_type c \<noteq> UNKNOWN \<and> m_action c \<noteq> UNKNOWN_ACTION
     \<and> Body_WellFormed (m_body c) (m_action c)
     \<and> (m_version c = 1 \<longrightarrow>
          Signature_Viable (m_signature c)
          \<and> (RequiresSpecialKey c \<or> PublicKey_Viable cr (m_public_key c))))
  \<and> (m_type c = UNKNOWN \<or> m_action c = UNKNOWN_ACTION
        \<or> \<not> Body_WellFormed (m_body c) (m_action c)
      \<longrightarrow> \<not> WellFormed cr (c\<lparr>m_signature := sg, m_public_key := pk\<rparr>))"
  unfolding WellFormed_def by auto

text \<open>A signed protocol contract is well formed; it is not once its type is UNKNOWN or
  its signature is missing.\<close>

theorem WellFormed_requirements_witness:
  "WellFormed example_crypto (legacy_contract PROTOCOL ADD ''k'' ''v'' signature64 [])
   \<and> \<not> WellFormed example_crypto (legacy_contract UNKNOWN ADD ''k'' ''v'' signature64 [])
   \<and> \<not> WellFormed example_crypto (legacy_contract PROTOCOL ADD ''k'' ''v'' [] [])"
  using WellFormed_requirements[of example_crypto
      "legacy_contract PROTOCOL ADD ''k'' ''v'' signature64 []" signature64 "[]"]
    WellFormed_requirements[of example_crypto
      "legacy_contract UNKNOWN ADD ''k'' ''v'' signature64 []" signature64 "[]"]
    WellFormed_requirements[of example_crypto
      "legacy_contract PROTOCOL ADD ''k'' ''v'' [] []" signature64 "[]"]
  by (simp add: legacy_contract_def example_crypto_def Signature_Viable_def signature64_def
      Body_WellFormed_def RequiresSpecialKey_def RequiresMasterKey_def)

text \<open>
  C10. The structural check of a legacy payload holds exactly when the key is not empty
  and the action is REMOVE or the value is not empty. So no ADD contract with an empty
  legacy value is well formed, while a version 1 REMOVE contract with an empty value is
  (here of type PROTOCOL, with a non-empty key and a viable signature).
\<close>

theorem LegacyPayload_WellFormed_iff:
  "(Payload_WellFormed (LegacyPayload key val) action
      \<longleftrightarrow> key \<noteq> [] \<and> (action = REMOVE \<or> val \<noteq> []))
   \<and> (m_payload (m_body c) = LegacyPayload key [] \<and> m_action c = ADD
        \<longrightarrow> \<not> WellFormed cr c)
   \<and> (1 \<le> CURRENT_VERSION cr \<and> key \<noteq> [] \<and> Signature_Viable sg
        \<longrightarrow> WellFormed cr (legacy_contract PROTOCOL REMOVE key [] sg pk))"
  by (simp add: WellFormed_def Body_WellFormed_def legacy_contract_def RequiresSpecialKey_def
      RequiresMasterKey_def)

theorem LegacyPayload_WellFormed_iff_witness:
  "Payload_WellFormed (LegacyPayload ''k'' []) REMOVE
   \<and> \<not> Payload_WellFormed (LegacyPayload ''k'' []) ADD
   \<and> \<not> WellFormed example_crypto (legacy_contract PROTOCOL ADD ''k'' [] signature64 [])
   \<and> WellFormed example_crypto (legacy_contract PROTOCOL REMOVE ''k'' [] signature64 [])"
  using LegacyPayload_WellFormed_iff[of "''k''" "[]" REMOVE
      "legacy_contract PROTOCOL ADD ''k'' [] signature64 []" example_crypto signature64 "[]"]
    LegacyPayload_WellFormed_iff[of "''k''" "[]" ADD
      "legacy_contract PROTOCOL ADD ''k'' [] signature64 []" example_crypto signature64 "[]"]
  by (simp add: legacy_contract_def example_crypto_def Signature_Viable_def signature64_def)

subsection \<open>Legacy text round trip\<close>

text \<open>
  C4. When the contract parsed from a legacy message is well formed, its type is not
  MESSAGE and \<^verbatim>\<open>ToString\<close> writes the tagged fields with, as type, key, value and action,
  exactly the texts that \<^verbatim>\<open>Parse\<close> extracted from the message; the type and action names
  it writes parse back to the contract's type and action. This holds for any
  \<^verbatim>\<open>ExtractXML\<close>.
\<close>

theorem Parse_ToString_fields:
  assumes "WellFormed cr (Parse cr cd message)"
  shows "m_type (Parse cr cd message) \<noteq> MESSAGE
    \<and> ToString cd (Parse cr cd message) =
        ''<MT>'' @ ExtractXML cd message ''<MT>'' ''</MT>'' @ ''</MT>''
      @ ''<MK>'' @ ExtractXML cd message ''<MK>'' ''</MK>'' @ ''</MK>''
      @ ''<MV>'' @ ExtractXML cd message ''<MV>'' ''</MV>'' @ ''</MV>''
      @ ''<MA>'' @ ExtractXML cd message ''<MA>'' ''</MA>'' @ ''</MA>''
      @ ''<MPK>'' @ PublicKey_ToString cd (m_public_key (Parse cr cd message)) @ ''</MPK>''
      @ ''<MS>'' @ Signature_ToString cd (m_signature (Parse cr cd message)) @ ''</MS>''
    \<and> Type_Parse (Type_ToString (m_type (Parse cr cd message)))
        = m_type (Parse cr cd message)
    \<and> Action_Parse (Action_ToString (m_action (Parse cr cd message)))
        = m_action (Parse cr cd message)"
proof -
  have ne: "message \<noteq> []"
    using assms by (auto simp: Parse_def Contract_default_def WellFormed_def)
  have ty: "Type_Parse (ExtractXML cd message ''<MT>'' ''</MT>'') \<noteq> UNKNOWN"
    and ac: "Action_Parse (ExtractXML cd message ''<MA>'' ''</MA>'') \<noteq> UNKNOWN_ACTION"
    using assms ne by (simp_all add: Parse_def WellFormed_def)
  have type_text: "Type_ToString (Type_Parse (ExtractXML cd message ''<MT>'' ''</MT>''))
      = ExtractXML cd message ''<MT>'' ''</MT>''"
    using ty by (simp add: Type_Parse_def split: if_splits)
  have action_text: "Action_ToString (Action_Parse (ExtractXML cd message ''<MA>'' ''</MA>''))
      = ExtractXML cd message ''<MA>'' ''</MA>''"
    using ac by (simp add: Action_Parse_def split: if_splits)
  have no_message: "Type_Parse (ExtractXML cd message ''<MT>'' ''</MT>'') \<noteq> MESSAGE"
    by (simp add: Type_Parse_def)
  show ?thesis
    using ne no_message type_text action_text by (simp add: Parse_def ToString_def)
qed

text \<open>A signed protocol message is printed back letter for letter.\<close>

theorem Parse_ToString_fields_witness:
  "WellFormed example_crypto (Parse example_crypto example_codec example_message)
   \<and> ToString example_codec (Parse example_crypto example_codec example_message)
       = example_message
   \<and> Type_Parse (Type_ToString (m_type (Parse example_crypto example_codec example_message)))
       = PROTOCOL"
proof -
  have wf: "WellFormed example_crypto (Parse example_crypto example_codec example_message)"
    by code_simp
  have ty: "m_type (Parse example_crypto example_codec example_message) = PROTOCOL"
    by code_simp
  have printed: "ToString example_codec (Parse example_crypto example_codec example_message)
       = example_message"
    by code_simp
  from Parse_ToString_fields[OF wf] wf ty printed show ?thesis by simp
qed

subsection \<open>Dispatch\<close>

text \<open>
  C9. \<^verbatim>\<open>Dispatcher::Apply\<close> with an action other than ADD and REMOVE appends one warning
  to the log and changes nothing else, for any handlers. A contract of type CLAIM,
  MESSAGE, UNKNOWN or OUT_OF_BOUND is routed to the unknown-type handler, and applying or
  reverting it only appends log lines; the \<^verbatim>\<open>Add\<close>, \<^verbatim>\<open>Delete\<close> and \<^verbatim>\<open>Revert\<close> of that
  handler each append one warning and change nothing else.
\<close>

theorem Dispatcher_unknown_action_and_type:
  "(m_action (m_contract ctx) \<noteq> ADD \<and> m_action (m_contract ctx) \<noteq> REMOVE \<longrightarrow>
      Dispatcher_Apply col ctx s
        = Inr (s\<lparr>debug_log := debug_log s
                 @ [ContractLog ''WARNING: Unknown contract action ignored'' (m_contract ctx)]\<rparr>))
   \<and> (m_type (m_contract ctx) \<in> {CLAIM, MESSAGE, UNKNOWN, OUT_OF_BOUND} \<longrightarrow>
        GetHandler (m_type (m_contract ctx)) = m_unknown_handler
        \<and> Dispatcher_Apply col ctx s
            = Inr (s\<lparr>debug_log := debug_log s @
                (if m_action (m_contract ctx) = ADD
                 then [ContractLog ''INFO: Add contract'' (m_contract ctx),
                       ContractLog ''WARNING: Add unknown contract type ignored''
                         (m_contract ctx)]
                 else if m_action (m_contract ctx) = REMOVE
                 then [ContractLog ''INFO: Delete contract'' (m_contract ctx),
                       ContractLog ''WARNING: Delete unknown contract type ignored''
                         (m_contract ctx)]
                 else [ContractLog ''WARNING: Unknown contract action ignored''
                         (m_contract ctx)])\<rparr>)
        \<and> Dispatcher_Revert col ctx s
            = Inr (s\<lparr>debug_log := debug_log s @
                [ContractLog ''INFO: Revert contract'' (m_contract ctx),
                 ContractLog ''WARNING: Revert unknown contract type ignored''
                   (m_contract ctx)]\<rparr>))
   \<and> handler_Add col m_unknown_handler ctx s
       = Inr (s\<lparr>debug_log := debug_log s
                @ [ContractLog ''WARNING: Add unknown contract type ignored'' (m_contract ctx)]\<rparr>)
   \<and> handler_Delete col m_unknown_handler ctx s
       = Inr (s\<lparr>debug_log := debug_log s
                @ [ContractLog ''WARNING: Delete unknown contract type ignored''
                     (m_contract ctx)]\<rparr>)
   \<and> handler_Revert col m_unknown_handler ctx s
       = Inr (s\<lparr>debug_log := debug_log s
                @ [ContractLog ''WARNING: Revert unknown contract type ignored''
                     (m_contract ctx)]\<rparr>)"
  by (auto simp: Dispatcher_Apply_def Dispatcher_Revert_def GetHandler_def handler_Add_def
      handler_Delete_def handler_Revert_def Contract_Log_def UnknownContractHandler_Add_def
      UnknownContractHandler_Delete_def UnknownContractHandler_Revert_def)

text \<open>A beacon contract with an unknown action, and the ADD of a claim.\<close>

theorem Dispatcher_unknown_action_and_type_witness:
  "Dispatcher_Apply example_collab
      (example_ctx (typed_contract BEACON UNKNOWN_ACTION EmptyPayload)) example_state
     = Inr (example_state\<lparr>debug_log :=
         [ContractLog ''WARNING: Unknown contract action ignored''
            (typed_contract BEACON UNKNOWN_ACTION EmptyPayload)]\<rparr>)
   \<and> Dispatcher_Apply example_collab
      (example_ctx (typed_contract CLAIM ADD EmptyPayload)) example_state
     = Inr (example_state\<lparr>debug_log :=
         [ContractLog ''INFO: Add contract'' (typed_contract CLAIM ADD EmptyPayload),
          ContractLog ''WARNING: Add unknown contract type ignored''
            (typed_contract CLAIM ADD EmptyPayload)]\<rparr>)"
  using Dispatcher_unknown_action_and_type[of
      "example_ctx (typed_contract BEACON UNKNOWN_ACTION EmptyPayload)"
      example_collab example_state]
    Dispatcher_unknown_action_and_type[of
      "example_ctx (typed_contract CLAIM ADD EmptyPayload)" example_collab example_state]
  by (simp add: example_ctx_def typed_contract_def example_state_def)

subsection \<open>Apply, then revert\<close>

text \<open>
  C3 (amended). For the cache handler, the handler of this file that inherits the default
  symmetric \<^verbatim>\<open>Revert\<close> (types PROTOCOL and SCRAPER, legacy payload), and a context whose
  action is ADD or REMOVE: applying and then reverting leaves the registries as they
  were, and leaves the cache with the entry for (type name, key) deleted after an ADD and
  written with the contract's value and the transaction's time after a REMOVE. So the
  state before the apply is restored exactly when that entry was absent before an ADD,
  or present with that value and time before a REMOVE.
\<close>

theorem apply_then_revert_appcache:
  assumes "m_type c = PROTOCOL \<or> m_type c = SCRAPER"
    and "m_payload (m_body c) = LegacyPayload key val"
    and "m_action c = ADD \<or> m_action c = REMOVE"
  shows "handler_visible (apply_then_revert col \<lparr>m_contract = c, m_tx = tx, m_pindex = p\<rparr> s)
         = Some (if m_action c = ADD
                 then (appcache s)((Type_ToString (m_type c), key) := None)
                 else (appcache s)((Type_ToString (m_type c), key)
                        \<mapsto> (val, uint (tx_nTime tx))),
                 registries s)
    \<and> (handler_visible (apply_then_revert col \<lparr>m_contract = c, m_tx = tx, m_pindex = p\<rparr> s)
         = handler_visible (Inr s)
       \<longleftrightarrow> (if m_action c = ADD
            then appcache s (Type_ToString (m_type c), key) = None
            else appcache s (Type_ToString (m_type c), key)
                 = Some (val, uint (tx_nTime tx))))"
proof -
  have payload: "SharePayloadAs_LegacyPayload col c = Inr (key, val)"
    using assms(1,2)
    by (auto simp: SharePayloadAs_LegacyPayload_def SharePayload_def ConvertFromLegacy_def)
  have routed: "GetHandler (m_type c) = m_appcache_handler"
    using assms(1) by (auto simp: GetHandler_def)
  have after: "handler_visible
      (apply_then_revert col \<lparr>m_contract = c, m_tx = tx, m_pindex = p\<rparr> s)
         = Some (if m_action c = ADD
                 then (appcache s)((Type_ToString (m_type c), key) := None)
                 else (appcache s)((Type_ToString (m_type c), key)
                        \<mapsto> (val, uint (tx_nTime tx))),
                 registries s)"
    using assms(3) payload routed
    by (auto simp: handler_visible_def apply_then_revert_def Dispatcher_Apply_def
        Dispatcher_Revert_def handler_Add_def handler_Delete_def handler_Revert_def
        IContractHandler_Revert_def AppCacheContractHandler_Add_def
        AppCacheContractHandler_Delete_def Contract_Log_def WriteCache_def DeleteCache_def
        StringToSection_def)
  have deleted: "((appcache s)(k := None) = appcache s) = (appcache s k = None)" for k
    by (metis fun_upd_idem_iff)
  have written: "((appcache s)(k \<mapsto> w) = appcache s) = (appcache s k = Some w)" for k w
    by (metis fun_upd_idem_iff)
  show ?thesis
    unfolding after using deleted written by (simp add: handler_visible_def)
qed

text \<open>An ADD under a fresh key, and a REMOVE of an entry that carries the contract's
  value and the transaction's time: both are undone.\<close>

theorem apply_then_revert_appcache_witness:
  "handler_visible (apply_then_revert example_collab
       (example_ctx (typed_contract PROTOCOL ADD (LegacyPayload ''fresh'' ''new'')))
       example_state)
   = handler_visible (Inr example_state)
   \<and> handler_visible (apply_then_revert example_collab
       (example_ctx (typed_contract PROTOCOL REMOVE (LegacyPayload ''K'' ''old'')))
       (example_state\<lparr>appcache := [(''protocol'', ''K'') \<mapsto> (''old'', 1600000000)]\<rparr>))
   = handler_visible
       (Inr (example_state\<lparr>appcache := [(''protocol'', ''K'') \<mapsto> (''old'', 1600000000)]\<rparr>))"
  using apply_then_revert_appcache[of
      "typed_contract PROTOCOL ADD (LegacyPayload ''fresh'' ''new'')" "''fresh''" "''new''"
      example_collab
      "example_tx [typed_contract PROTOCOL ADD (LegacyPayload ''fresh'' ''new'')]"
      example_index example_state]
    apply_then_revert_appcache[of
      "typed_contract PROTOCOL REMOVE (LegacyPayload ''K'' ''old'')" "''K''" "''old''"
      example_collab
      "example_tx [typed_contract PROTOCOL REMOVE (LegacyPayload ''K'' ''old'')]"
      example_index
      "example_state\<lparr>appcache := [(''protocol'', ''K'') \<mapsto> (''old'', 1600000000)]\<rparr>"]
  by (auto simp: typed_contract_def example_ctx_def example_state_def example_tx_def)

text \<open>
  C3 as stated fails: an ADD that overwrites an existing entry is reverted by deleting
  the entry, so the value held before the apply is lost.
\<close>

theorem apply_then_revert_counterexample:
  "handler_visible (apply_then_revert example_collab
       (example_ctx (typed_contract PROTOCOL ADD (LegacyPayload ''K'' ''new''))) example_state)
   \<noteq> handler_visible (Inr example_state)"
proof -
  have "handler_visible (apply_then_revert example_collab
       (example_ctx (typed_contract PROTOCOL ADD (LegacyPayload ''K'' ''new''))) example_state)
     = Some ((appcache example_state)((''protocol'', ''K'') := None), registries example_state)"
    by (simp add: handler_visible_def apply_then_revert_def Dispatcher_Apply_def
        Dispatcher_Revert_def handler_Add_def handler_Delete_def handler_Revert_def
        IContractHandler_Revert_def AppCacheContractHandler_Add_def
        AppCacheContractHandler_Delete_def Contract_Log_def WriteCache_def DeleteCache_def
        StringToSection_def example_ctx_def typed_contract_def GetHandler_def
        SharePayloadAs_LegacyPayload_def SharePayload_def)
  moreover have "(appcache example_state)((''protocol'', ''K'') := None)
      \<noteq> appcache example_state"
  proof
    assume "(appcache example_state)((''protocol'', ''K'') := None) = appcache example_state"
    then have "((appcache example_state)((''protocol'', ''K'') := None)) (''protocol'', ''K'')
        = appcache example_state (''protocol'', ''K'')"
      by simp
    then show False by (simp add: example_state_def)
  qed
  ultimately show ?thesis by (simp add: handler_visible_def)
qed

subsection \<open>Applying the contracts of a transaction and of a block\<close>

lemma skip_check_skipped: "skip_check cr c = Inr (skip, lines) \<Longrightarrow> skip = skipped cr c"
  by (auto simp: skip_check_def skipped_def fails_Validate_def
      split: if_splits sum.splits prod.splits)

text \<open>No handler touches the dirty flag of the researcher cache.\<close>

lemma Dispatcher_Apply_dirty:
  "Dispatcher_Apply col ctx s = Inr s' \<Longrightarrow> researcher_dirty s' = researcher_dirty s"
  by (auto simp: Dispatcher_Apply_def handler_Add_def handler_Delete_def on_registries_def
      Contract_Log_def AppCacheContractHandler_Add_def AppCacheContractHandler_Delete_def
      UnknownContractHandler_Add_def UnknownContractHandler_Delete_def
      split: if_splits handler.splits sum.splits prod.splits)

lemma ApplyContracts_loop_found:
  "ApplyContracts_loop cr col tx p cs s f = Inr (s', f') \<Longrightarrow>
   f' = (f \<or> (\<exists>c\<in>set cs. \<not> skipped cr c \<and> m_type c \<noteq> MESSAGE))"
proof (induction cs arbitrary: s f)
  case Nil
  then show ?case by simp
next
  case (Cons c cs)
  from Cons.prems obtain skip lines where sk: "skip_check cr c = Inr (skip, lines)"
    by (auto split: sum.splits prod.splits)
  note eq = skip_check_skipped[OF sk]
  show ?case
  proof (cases skip)
    case True
    with Cons.prems sk
    have "ApplyContracts_loop cr col tx p cs (s\<lparr>debug_log := debug_log s @ lines\<rparr>) f
          = Inr (s', f')"
      by simp
    from Cons.IH[OF this] True eq show ?thesis by auto
  next
    case False
    with Cons.prems sk obtain s1 where
      "ApplyContracts_loop cr col tx p cs s1 (f \<or> m_type c \<noteq> MESSAGE) = Inr (s', f')"
      by (auto split: sum.splits)
    from Cons.IH[OF this] False eq show ?thesis by auto
  qed
qed

lemma ApplyContracts_loop_dirty:
  "ApplyContracts_loop cr col tx p cs s f = Inr (s', f') \<Longrightarrow>
   researcher_dirty s' =
     (researcher_dirty s
      \<or> (\<exists>c\<in>set cs. \<not> skipped cr c \<and> m_type c = PROTOCOL
            \<and> team_whitelist_key (LegacyKeyString (m_payload (m_body c)))))"
proof (induction cs arbitrary: s f)
  case Nil
  then show ?case by simp
next
  case (Cons c cs)
  from Cons.prems obtain skip lines where sk: "skip_check cr c = Inr (skip, lines)"
    by (auto split: sum.splits prod.splits)
  note eq = skip_check_skipped[OF sk]
  show ?case
  proof (cases skip)
    case True
    with Cons.prems sk
    have "ApplyContracts_loop cr col tx p cs (s\<lparr>debug_log := debug_log s @ lines\<rparr>) f
          = Inr (s', f')"
      by simp
    from Cons.IH[OF this] True eq show ?thesis by auto
  next
    case False
    let ?s0 = "s\<lparr>debug_log := debug_log s @ lines\<rparr>"
    let ?m = "m_type c = PROTOCOL
              \<and> team_whitelist_key (LegacyKeyString (AssumeLegacy (m_body c)))"
    from False Cons.prems sk obtain s1 where
      d: "Dispatcher_Apply col \<lparr>m_contract = c, m_tx = tx, m_pindex = p\<rparr>
            (if ?m then MarkDirty ?s0 else ?s0) = Inr s1"
      and r: "ApplyContracts_loop cr col tx p cs s1 (f \<or> m_type c \<noteq> MESSAGE) = Inr (s', f')"
      by (auto split: sum.splits)
    from Dispatcher_Apply_dirty[OF d]
    have "researcher_dirty s1 = (researcher_dirty s \<or> ?m)"
      by (cases ?m) (auto simp: MarkDirty_def)
    with Cons.IH[OF r] False eq show ?thesis by (auto simp: AssumeLegacy_def)
  qed
qed

lemma ApplyContracts_txs_found:
  "ApplyContracts_txs cr col txs p s f = Inr (s', f') \<Longrightarrow>
   f' = (f \<or> (\<exists>tx\<in>set txs. \<exists>c\<in>set (GetContracts tx).
                 \<not> skipped cr c \<and> m_type c \<noteq> MESSAGE))"
proof (induction txs arbitrary: s f)
  case Nil
  then show ?case by simp
next
  case (Cons tx txs)
  from Cons.prems obtain s1 f1 where
    a: "ApplyContracts_tx cr col tx p s f = Inr (s1, f1)"
    and r: "ApplyContracts_txs cr col txs p s1 f1 = Inr (s', f')"
    by (auto split: sum.splits)
  from a have "f1 = (f \<or> (\<exists>c\<in>set (GetContracts tx). \<not> skipped cr c \<and> m_type c \<noteq> MESSAGE))"
    unfolding ApplyContracts_tx_def by (rule ApplyContracts_loop_found)
  with Cons.IH[OF r] show ?case by auto
qed

text \<open>The loop returns whenever the payloads are of the classes the casts expect.\<close>

lemma skip_check_returns:
  "payload_as_expected c \<Longrightarrow> \<exists>skip lines. skip_check cr c = Inr (skip, lines)"
  by (cases "m_payload (m_body c)")
     (auto simp: payload_as_expected_def skip_check_def Validate_def VerifySignature_def
        GetHash_def split: sum.splits)

lemma Dispatcher_Apply_returns:
  "payload_as_expected (m_contract ctx) \<Longrightarrow> \<exists>s'. Dispatcher_Apply col ctx s = Inr s'"
  by (cases "m_payload (m_body (m_contract ctx))"; cases "m_type (m_contract ctx)")
     (auto simp: payload_as_expected_def Dispatcher_Apply_def handler_Add_def handler_Delete_def
        GetHandler_def AppCacheContractHandler_Add_def AppCacheContractHandler_Delete_def
        SharePayloadAs_LegacyPayload_def SharePayload_def ConvertFromLegacy_def)

lemma ApplyContracts_loop_returns:
  "\<forall>c\<in>set cs. payload_as_expected c \<Longrightarrow>
   \<exists>s' f'. ApplyContracts_loop cr col tx p cs s f = Inr (s', f')"
proof (induction cs arbitrary: s f)
  case Nil
  then show ?case by simp
next
  case (Cons c cs)
  then have ok: "payload_as_expected c" and rest: "\<forall>c\<in>set cs. payload_as_expected c"
    by simp_all
  from skip_check_returns[OF ok] obtain skip lines where
    sk: "skip_check cr c = Inr (skip, lines)" by blast
  show ?case
  proof (cases skip)
    case True
    with sk Cons.IH[OF rest] show ?thesis by simp
  next
    case False
    let ?s0 = "s\<lparr>debug_log := debug_log s @ lines\<rparr>"
    let ?s1 = "if m_type c = PROTOCOL
                  \<and> team_whitelist_key (LegacyKeyString (AssumeLegacy (m_body c)))
               then MarkDirty ?s0 else ?s0"
    from ok obtain s2 where
      d: "Dispatcher_Apply col \<lparr>m_contract = c, m_tx = tx, m_pindex = p\<rparr> ?s1 = Inr s2"
      using Dispatcher_Apply_returns[of "\<lparr>m_contract = c, m_tx = tx, m_pindex = p\<rparr>" col ?s1]
      by auto
    from Cons.IH[OF rest, of s2 "f \<or> m_type c \<noteq> MESSAGE"] obtain s' f' where
      "ApplyContracts_loop cr col tx p cs s2 (f \<or> m_type c \<noteq> MESSAGE) = Inr (s', f')"
      by blast
    with sk False d show ?thesis by simp
  qed
qed

lemma unsigned_contract_invalid:
  "Validate example_crypto unsigned_contract = Inr (False, [])"
  by (simp add: Validate_def WellFormed_def unsigned_contract_def legacy_contract_def
      Signature_Viable_def)

lemmas pipeline_defs =
  ApplyContracts_tx_def ApplyContracts_block_def skip_check_def Validate_def WellFormed_def
  Dispatcher_Apply_def GetHandler_def handler_Add_def handler_Delete_def on_registries_def
  Contract_Log_def MarkDirty_def AssumeLegacy_def team_whitelist_key_def
  AppCacheContractHandler_Add_def AppCacheContractHandler_Delete_def
  UnknownContractHandler_Add_def UnknownContractHandler_Delete_def
  SharePayloadAs_LegacyPayload_def SharePayload_def WriteCache_def DeleteCache_def
  StringToSection_def Body_WellFormed_def Signature_Viable_def

lemmas example_defs =
  example_tx_def example_state_def example_collab_def example_registry_def
  unsigned_contract_def message_contract_def beacon_contract_def whitelist_contract_def
  other_contract_def legacy_contract_def typed_contract_def example_block_def

text \<open>
  C7. In \<^verbatim>\<open>ApplyContracts\<close> on a transaction, a contract of version 1 that fails
  \<^verbatim>\<open>Validate()\<close> is passed over: the loop goes on with the remaining contracts, the state
  changed by nothing but the lines \<^verbatim>\<open>Validate\<close> logged. The call turns the found-contract
  flag on exactly when some contract that is not passed over has a type other than
  MESSAGE, and never turns it off. \<^verbatim>\<open>ApplyContracts\<close> on a block starts from a false flag
  and runs this over the transactions after the first two, so that its flag is true
  exactly when one of them carries such a contract.
\<close>

theorem ApplyContracts_skips_and_flags:
  "(m_version c = 1 \<and> Validate cr c = Inr (False, lines) \<longrightarrow>
      ApplyContracts_loop cr col tx p (c # rest) s f
        = ApplyContracts_loop cr col tx p rest (s\<lparr>debug_log := debug_log s @ lines\<rparr>) f)
   \<and> (ApplyContracts_tx cr col tx p s f = Inr (s', f') \<longrightarrow>
        f' = (f \<or> (\<exists>c\<in>set (GetContracts tx).
                     \<not> (m_version c = 1 \<and> fails_Validate cr c) \<and> m_type c \<noteq> MESSAGE)))
   \<and> (ApplyContracts_block cr col b p s = Inr (s', f') \<longrightarrow>
        2 \<le> length (vtx b)
        \<and> ApplyContracts_txs cr col (drop 2 (vtx b)) p s False = Inr (s', f')
        \<and> f' = (\<exists>tx\<in>set (drop 2 (vtx b)). \<exists>c\<in>set (GetContracts tx).
                     \<not> (m_version c = 1 \<and> fails_Validate cr c) \<and> m_type c \<noteq> MESSAGE))"
proof (intro conjI impI)
  assume "m_version c = 1 \<and> Validate cr c = Inr (False, lines)"
  then show "ApplyContracts_loop cr col tx p (c # rest) s f
        = ApplyContracts_loop cr col tx p rest (s\<lparr>debug_log := debug_log s @ lines\<rparr>) f"
    by (simp add: skip_check_def)
next
  assume "ApplyContracts_tx cr col tx p s f = Inr (s', f')"
  then show "f' = (f \<or> (\<exists>c\<in>set (GetContracts tx).
                     \<not> (m_version c = 1 \<and> fails_Validate cr c) \<and> m_type c \<noteq> MESSAGE))"
    unfolding ApplyContracts_tx_def
    using ApplyContracts_loop_found[of cr col tx p "GetContracts tx" s f s' f']
    by (simp add: skipped_def)
next
  assume a: "ApplyContracts_block cr col b p s = Inr (s', f')"
  then show "2 \<le> length (vtx b)"
    by (simp add: ApplyContracts_block_def split: if_splits)
  from a show r: "ApplyContracts_txs cr col (drop 2 (vtx b)) p s False = Inr (s', f')"
    by (simp add: ApplyContracts_block_def split: if_splits)
  from ApplyContracts_txs_found[OF r]
  show "f' = (\<exists>tx\<in>set (drop 2 (vtx b)). \<exists>c\<in>set (GetContracts tx).
                     \<not> (m_version c = 1 \<and> fails_Validate cr c) \<and> m_type c \<noteq> MESSAGE)"
    by (simp add: skipped_def)
qed

text \<open>
  An unsigned version 1 contract is passed over and the beacon contract after it sets
  the flag; in the sample block the beacon contract sits in the first transaction and
  the third holds only the unsigned contract and a message, so the flag stays false.
\<close>

theorem ApplyContracts_skips_and_flags_witness:
  "ApplyContracts_loop example_crypto example_collab (example_tx []) example_index
       [unsigned_contract, beacon_contract] example_state False
     = ApplyContracts_loop example_crypto example_collab (example_tx []) example_index
       [beacon_contract] (example_state\<lparr>debug_log := debug_log example_state @ []\<rparr>) False
   \<and> map_sum id snd (ApplyContracts_tx example_crypto example_collab
              (example_tx [unsigned_contract, beacon_contract]) example_index example_state False)
       = Inr True
   \<and> (\<exists>c\<in>set (GetContracts (example_tx [unsigned_contract, beacon_contract])).
         \<not> (m_version c = 1 \<and> fails_Validate example_crypto c) \<and> m_type c \<noteq> MESSAGE)
   \<and> map_sum id snd (ApplyContracts_block example_crypto example_collab example_block
          example_index example_state) = Inr False
   \<and> \<not> (\<exists>tx\<in>set (drop 2 (vtx example_block)). \<exists>c\<in>set (GetContracts tx).
         \<not> (m_version c = 1 \<and> fails_Validate example_crypto c) \<and> m_type c \<noteq> MESSAGE)"
proof -
  have v: "m_version unsigned_contract = 1
           \<and> Validate example_crypto unsigned_contract = Inr (False, [])"
    using unsigned_contract_invalid by (simp add: unsigned_contract_def legacy_contract_def)
  obtain s1 where a: "ApplyContracts_tx example_crypto example_collab
      (example_tx [unsigned_contract, beacon_contract]) example_index example_state False
      = Inr (s1, True)"
    by (simp add: pipeline_defs example_defs)
  obtain s2 where b: "ApplyContracts_block example_crypto example_collab example_block
      example_index example_state = Inr (s2, False)"
    by (simp add: pipeline_defs example_defs)
  note skip = ApplyContracts_skips_and_flags[THEN conjunct1, rule_format, OF v]
  note tx = ApplyContracts_skips_and_flags[THEN conjunct2, THEN conjunct1, rule_format, OF a]
  note blk = ApplyContracts_skips_and_flags[THEN conjunct2, THEN conjunct2, rule_format, OF b]
  have c2: "map_sum id snd (ApplyContracts_tx example_crypto example_collab
              (example_tx [unsigned_contract, beacon_contract]) example_index example_state False)
       = Inr True"
    by (simp add: a)
  have c3: "\<exists>c\<in>set (GetContracts (example_tx [unsigned_contract, beacon_contract])).
         \<not> (m_version c = 1 \<and> fails_Validate example_crypto c) \<and> m_type c \<noteq> MESSAGE"
    using tx by simp
  have c4: "map_sum id snd (ApplyContracts_block example_crypto example_collab example_block
          example_index example_state) = Inr False"
    by (simp add: b)
  have c5: "\<not> (\<exists>tx\<in>set (drop 2 (vtx example_block)). \<exists>c\<in>set (GetContracts tx).
         \<not> (m_version c = 1 \<and> fails_Validate example_crypto c) \<and> m_type c \<noteq> MESSAGE)"
    using blk by simp
  show ?thesis by (intro conjI skip c2 c3 c4 c5)
qed

text \<open>
  C8. After \<^verbatim>\<open>ApplyContracts\<close> on a transaction the researcher cache is dirty exactly
  when it was dirty before or some contract that is not passed over has type PROTOCOL
  and one of the two team-whitelist keys as its legacy key. \<open>TEAM_WHITELIST\<close> is such a
  key and \<open>OTHER\<close> is not.
\<close>

theorem ApplyContracts_marks_researcher_dirty:
  "(ApplyContracts_tx cr col tx p s f = Inr (s', f') \<longrightarrow>
     researcher_dirty s' = (researcher_dirty s \<or> (\<exists>c\<in>set (GetContracts tx).
         \<not> (m_version c = 1 \<and> fails_Validate cr c) \<and> m_type c = PROTOCOL
         \<and> team_whitelist_key (LegacyKeyString (m_payload (m_body c))))))
   \<and> team_whitelist_key ''TEAM_WHITELIST'' \<and> \<not> team_whitelist_key ''OTHER''"
  using ApplyContracts_loop_dirty[of cr col tx p "GetContracts tx" s f s' f']
  by (simp add: ApplyContracts_tx_def skipped_def team_whitelist_key_def)

text \<open>A protocol contract with key \<open>TEAM_WHITELIST\<close> sets the flag of a clean cache; one
  with key \<open>OTHER\<close> leaves it clean.\<close>

theorem ApplyContracts_marks_researcher_dirty_witness:
  "map_sum id (researcher_dirty \<circ> fst)
     (ApplyContracts_tx example_crypto example_collab (example_tx [whitelist_contract])
        example_index example_state False) = Inr True
   \<and> map_sum id (researcher_dirty \<circ> fst)
     (ApplyContracts_tx example_crypto example_collab (example_tx [other_contract])
        example_index example_state False) = Inr False"
proof -
  obtain s1 f1 where a: "ApplyContracts_tx example_crypto example_collab
      (example_tx [whitelist_contract]) example_index example_state False = Inr (s1, f1)"
    by (simp add: pipeline_defs example_defs)
  obtain s2 f2 where b: "ApplyContracts_tx example_crypto example_collab
      (example_tx [other_contract]) example_index example_state False = Inr (s2, f2)"
    by (simp add: pipeline_defs example_defs)
  from ApplyContracts_marks_researcher_dirty[THEN conjunct1, rule_format, OF a]
  have "researcher_dirty s1"
    by (simp add: example_defs team_whitelist_key_def)
  moreover from ApplyContracts_marks_researcher_dirty[THEN conjunct1, rule_format, OF b]
  have "\<not> researcher_dirty s2"
    by (simp add: example_defs team_whitelist_key_def)
  ultimately show ?thesis using a b by simp
qed

subsection \<open>Replay\<close>

text \<open>
  C6. When the block that \<^verbatim>\<open>FindByMinTime\<close> returns lies below the activation height (1 on
  testnet, 164618 otherwise), \<^verbatim>\<open>ReplayContracts\<close> returns at once: it resets no handler
  and applies no contract, and the state is the one it was called in, but for the line
  it logs.
\<close>

theorem ReplayContracts_below_activation:
  assumes "i < length chain"
    and "j = FindByMinTime col chain (uint (nTime (chain ! i)) - MAX_AGE col)"
    and "j < length chain"
    and "nHeight (chain ! j) < (if fTestNet col then 1 else 164618)"
  shows "ReplayContracts cr col chain i s
         = Inr (s\<lparr>debug_log := debug_log s @ [ReplayLog (nHeight (chain ! j))]\<rparr>)"
  using assms by (simp add: ReplayContracts_def Let_def)

text \<open>A chain that starts at height 100, replayed from its second block.\<close>

theorem ReplayContracts_below_activation_witness:
  "ReplayContracts example_crypto example_collab example_chain 1 example_state
     = Inr (example_state\<lparr>debug_log := [ReplayLog 100]\<rparr>)"
proof -
  have j: "FindByMinTime example_collab example_chain
             (uint (nTime (example_chain ! 1)) - MAX_AGE example_collab) = 0"
    by (simp add: example_collab_def example_chain_def)
  have "ReplayContracts example_crypto example_collab example_chain 1 example_state
     = Inr (example_state\<lparr>debug_log := debug_log example_state
              @ [ReplayLog (nHeight (example_chain ! 0))]\<rparr>)"
    by (rule ReplayContracts_below_activation[where j = 0])
       (simp_all add: j, simp_all add: example_chain_def example_collab_def)
  then show ?thesis by (simp add: example_chain_def example_state_def)
qed

end
